theory Spec2Isabelle
  imports Complex_Main "HOL-Library.Product_Lexorder"
begin

section \<open>Python and SQLite primitives used by the modules\<close>

text \<open>
  Exceptions are values. \<open>IntegrityError\<close> (sqlite3, a NOT NULL column given None),
  \<open>TypeError\<close> (\<open>str.join\<close> over a non-string), \<open>AttributeError\<close> (a method the
  object does not have) and \<open>OSError\<close> (a failed file copy) are the ones the modelled
  code can meet. \<open>ValidationError\<close> and \<open>NotFoundError\<close> are the names the
  specification uses; no statement of the modules raises them.
\<close>

datatype error =
    IntegrityError
  | TypeError
  | AttributeError
  | OSError
  | ValidationError
  | NotFoundError

text \<open>The slice \<open>xs[:n]\<close>: a negative bound counts from the end.\<close>

definition py_take :: "int \<Rightarrow> 'a list \<Rightarrow> 'a list" where
  "py_take n xs =
     (if 0 \<le> n then take (nat n) xs else take (length xs - nat (- n)) xs)"

text \<open>SQLite's \<open>LIMIT n\<close>: a negative bound means no bound.\<close>

definition sql_limit :: "int \<Rightarrow> 'a list \<Rightarrow> 'a list" where
  "sql_limit n xs = (if n < 0 then xs else take (nat n) xs)"

text \<open>\<open>str(n)\<close> for an integer, in decimal.\<close>

definition digit_char :: "nat \<Rightarrow> char" where
  "digit_char d = ''0123456789'' ! d"

fun str_nat :: "nat \<Rightarrow> string" where
  "str_nat n = (if n < 10 then [digit_char n] else str_nat (n div 10) @ [digit_char (n mod 10)])"

declare str_nat.simps [simp del]

definition str_int :: "int \<Rightarrow> string" where
  "str_int i = (if i < 0 then CHR ''-'' # str_nat (nat (- i)) else str_nat (nat i))"

text \<open>\<open>sep.join(parts)\<close>.\<close>

fun join :: "string \<Rightarrow> string list \<Rightarrow> string" where
  "join sep [] = []"
| "join sep [x] = x"
| "join sep (x # y # ys) = x @ sep @ join sep (y # ys)"

text \<open>
  A \<open>datetime\<close> value: year, month, day, hour, minute, second, microsecond. The
  lexicographic order of the tuple is the order of the \<open>datetime\<close> objects and, for
  four-digit years, the order of their ISO strings as SQLite compares them.
\<close>

type_synonym datetime = "nat \<times> nat \<times> nat \<times> nat \<times> nat \<times> nat \<times> nat"

definition pad :: "nat \<Rightarrow> nat \<Rightarrow> string" where
  "pad w n = replicate (w - length (str_nat n)) (CHR ''0'') @ str_nat n"

text \<open>\<open>dt.isoformat()\<close>: the microseconds are printed only when they are not zero.\<close>

fun isoformat :: "datetime \<Rightarrow> string" where
  "isoformat (y, mo, d, h, mi, s, us) =
     pad 4 y @ ''-'' @ pad 2 mo @ ''-'' @ pad 2 d @ ''T'' @
     pad 2 h @ '':'' @ pad 2 mi @ '':'' @ pad 2 s @
     (if us = 0 then [] else ''.'' @ pad 6 us)"

text \<open>\<open>dt.strftime('%Y%m%d_%H%M%S')\<close>.\<close>

fun strftime_compact :: "datetime \<Rightarrow> string" where
  "strftime_compact (y, mo, d, h, mi, s, us) =
     pad 4 y @ pad 2 mo @ pad 2 d @ ''_'' @ pad 2 h @ pad 2 mi @ pad 2 s"

text \<open>
  A stable sort into descending key order: what \<open>list.sort(key=f, reverse=True)\<close>
  does, and the reading taken here of \<open>ORDER BY f DESC\<close> (SQLite leaves the order of
  rows with equal keys open; rows with equal keys stay in table order in the model).
\<close>

fun insort_desc :: "('a \<Rightarrow> 'k::linorder) \<Rightarrow> 'a \<Rightarrow> 'a list \<Rightarrow> 'a list" where
  "insort_desc f x [] = [x]"
| "insort_desc f x (y # ys) =
     (if f y \<le> f x then x # y # ys else y # insort_desc f x ys)"

definition sort_desc :: "('a \<Rightarrow> 'k::linorder) \<Rightarrow> 'a list \<Rightarrow> 'a list" where
  "sort_desc f xs = foldr (insort_desc f) xs []"

section \<open>The Record Store: \<open>modules/database.py\<close>\<close>

text \<open>
  One row of the table \<open>interactions\<close>, in the column order of the schema (the order of
  the tuple that \<open>SELECT *\<close> returns). \<open>text\<close> is NOT NULL; the other columns may hold
  NULL, which is \<open>None\<close>.
\<close>

record interaction =
  i_id :: int
  i_text :: string
  i_source :: "string option"
  i_tags :: "string option"
  i_emotion :: "string option"
  i_mood :: "string option"
  i_intensity :: "int option"
  i_bit_worthy :: bool
  i_timestamp :: datetime
  i_created_at :: datetime

text \<open>One row of the table \<open>deleted_interactions\<close> that \<open>safe_delete_interaction\<close> creates.
  The column \<open>original_data\<close> holds \<open>str(row)\<close> and is read back with \<open>eval\<close>; on a tuple
  of strings, integers and None that round trip is the identity, so the model stores the
  row itself.\<close>

record tombstone =
  d_id :: int
  original_text :: string
  deletion_reason :: string
  deletion_timestamp :: datetime
  original_data :: interaction
  backup_location :: string

text \<open>
  The database file: the live table in rowid order, the AUTOINCREMENT counter of the
  live table (\<open>sqlite_sequence\<close>), and the tombstone table in rowid order (empty also
  stands for the table not having been created yet: a lookup then fails and both
  callers return False without a change).
\<close>

record db =
  interactions :: "interaction list"
  seq :: int
  deleted_interactions :: "tombstone list"

definition empty_db :: db where
  "empty_db = \<lparr>interactions = [], seq = 0, deleted_interactions = []\<rparr>"

text \<open>The id an \<open>INTEGER PRIMARY KEY AUTOINCREMENT\<close> column gives the next row: one more
  than the largest id the table holds or has ever held.\<close>

definition next_rowid :: "db \<Rightarrow> int" where
  "next_rowid s = max (seq s) (fold max (map i_id (interactions s)) 0) + 1"

definition insert_row :: "interaction \<Rightarrow> db \<Rightarrow> db" where
  "insert_row r s =
     s\<lparr>interactions := interactions s @ [r\<lparr>i_id := next_rowid s\<rparr>], seq := next_rowid s\<rparr>"

text \<open>
  \<open>BhoolamindDB.add_interaction\<close>: one INSERT with the current time as timestamp, and
  the new row's id returned. There is no check of the arguments; the only failure is the
  NOT NULL constraint on \<open>text\<close>, which sqlite3 raises as IntegrityError and the method
  does not catch.
\<close>

definition add_interaction ::
  "datetime \<Rightarrow> string option \<Rightarrow> string option \<Rightarrow> string option \<Rightarrow> string option \<Rightarrow>
   string option \<Rightarrow> int option \<Rightarrow> bool \<Rightarrow> db \<Rightarrow> error + (int \<times> db)" where
  "add_interaction now text_arg source tags emotion mood intensity bit_worthy s =
     (case text_arg of
        None \<Rightarrow> Inl IntegrityError
      | Some t \<Rightarrow>
          Inr (next_rowid s,
               insert_row \<lparr>i_id = 0, i_text = t, i_source = source, i_tags = tags,
                           i_emotion = emotion, i_mood = mood, i_intensity = intensity,
                           i_bit_worthy = bit_worthy, i_timestamp = now,
                           i_created_at = now\<rparr> s))"

section \<open>Delete protection: \<open>modules/ai_delete_protection.py\<close>\<close>

text \<open>The row that step 3 of \<open>safe_delete_interaction\<close> inserts into the live table (its
  id is assigned by the insert; \<open>mood\<close> and \<open>bit_worthy\<close> take the column defaults).\<close>

definition deletion_log_row :: "datetime \<Rightarrow> int \<Rightarrow> string \<Rightarrow> interaction \<Rightarrow> interaction" where
  "deletion_log_row now interaction_id reason interaction_data =
     \<lparr>i_id = 0,
      i_text = ''DELETION LOG: Deleted interaction '' @ str_int interaction_id @
               ''. Reason: '' @ reason @ ''. Original: '' @
               take 100 (i_text interaction_data) @ ''...'',
      i_source = Some ''ai_delete_protection'',
      i_tags = Some ''deletion_log,ai_safety,backup'',
      i_emotion = Some ''protective'',
      i_mood = None,
      i_intensity = Some 8,
      i_bit_worthy = False,
      i_timestamp = now,
      i_created_at = now\<rparr>"

text \<open>
  The body of the \<open>try\<close> block of \<open>safe_delete_interaction\<close>. \<open>backup_ok\<close> says whether
  \<open>shutil.copy2\<close> of step 1 succeeds. The three calls of \<open>datetime.now()\<close> are one
  \<open>now\<close>. A row that is not found returns False before anything is written.
\<close>

definition safe_delete_body ::
  "bool \<Rightarrow> datetime \<Rightarrow> int \<Rightarrow> string \<Rightarrow> db \<Rightarrow> error + (bool \<times> db)" where
  "safe_delete_body backup_ok now interaction_id reason s =
     (if \<not> backup_ok then Inl OSError
      else case find (\<lambda>r. i_id r = interaction_id) (interactions s) of
        None \<Rightarrow> Inr (False, s)
      | Some interaction_data \<Rightarrow>
          (let s1 = insert_row (deletion_log_row now interaction_id reason interaction_data) s;
               s2 = s1\<lparr>deleted_interactions := deleted_interactions s1 @
                      [\<lparr>d_id = interaction_id,
                        original_text = i_text interaction_data,
                        deletion_reason = reason,
                        deletion_timestamp = now,
                        original_data = interaction_data,
                        backup_location = ''backups/pre_delete/pre_delete_'' @
                                          strftime_compact now @ ''.db''\<rparr>]\<rparr>;
               s3 = s2\<lparr>interactions :=
                      filter (\<lambda>r. i_id r \<noteq> interaction_id) (interactions s2)\<rparr>
           in Inr (True, s3)))"

text \<open>\<open>safe_delete_interaction\<close>: every exception of the body is caught and turned into
  the return value False; nothing was committed then, so the database is unchanged.\<close>

definition safe_delete_interaction ::
  "bool \<Rightarrow> datetime \<Rightarrow> int \<Rightarrow> string \<Rightarrow> db \<Rightarrow> (error + bool) \<times> db" where
  "safe_delete_interaction backup_ok now interaction_id reason s =
     (case safe_delete_body backup_ok now interaction_id reason s of
        Inl e \<Rightarrow> (Inr False, s)
      | Inr (b, s') \<Rightarrow> (Inr b, s'))"

definition restoration_log_row :: "datetime \<Rightarrow> int \<Rightarrow> string \<Rightarrow> interaction" where
  "restoration_log_row now interaction_id reason =
     \<lparr>i_id = 0,
      i_text = ''RESTORATION LOG: Restored interaction '' @ str_int interaction_id @
               ''. Originally deleted: '' @ reason,
      i_source = Some ''ai_delete_protection'',
      i_tags = Some ''restoration_log,ai_safety,recovery'',
      i_emotion = Some ''recovered'',
      i_mood = None,
      i_intensity = Some 7,
      i_bit_worthy = False,
      i_timestamp = now,
      i_created_at = now\<rparr>"

text \<open>
  \<open>restore_deleted_interaction\<close>: the first tombstone with the id is read, the columns
  \<open>original_data[1:9]\<close> (text, source, tags, emotion, mood, intensity, bit_worthy,
  timestamp) are inserted as a new row, a restoration log row is inserted, and every
  tombstone with the id is removed. Exceptions are caught and returned as False.
\<close>

definition restore_deleted_interaction ::
  "datetime \<Rightarrow> int \<Rightarrow> db \<Rightarrow> (error + bool) \<times> db" where
  "restore_deleted_interaction now interaction_id s =
     (case find (\<lambda>t. d_id t = interaction_id) (deleted_interactions s) of
        None \<Rightarrow> (Inr False, s)
      | Some deleted_data \<Rightarrow>
          (let s1 = insert_row ((original_data deleted_data)\<lparr>i_created_at := now\<rparr>) s;
               s2 = insert_row
                      (restoration_log_row now interaction_id (deletion_reason deleted_data)) s1;
               s3 = s2\<lparr>deleted_interactions :=
                      filter (\<lambda>t. d_id t \<noteq> interaction_id) (deleted_interactions s2)\<rparr>
           in (Inr True, s3)))"

text \<open>
  What every database built by these operations satisfies: ids of live rows are unique
  (primary key), and a tombstone's id belongs to no live row and is not above the
  AUTOINCREMENT counter, so it is never assigned again.
\<close>

definition wf_db :: "db \<Rightarrow> bool" where
  "wf_db s \<longleftrightarrow>
     distinct (map i_id (interactions s)) \<and>
     list_all (\<lambda>t. d_id t \<notin> set (map i_id (interactions s)) \<and> d_id t \<le> seq s)
              (deleted_interactions s)"

section \<open>Retrieval: \<open>modules/memory_injector.py\<close>\<close>

subsection \<open>Strings as the queries use them\<close>

text \<open>
  Texts are byte strings here and case folding is the ASCII one, for Python's
  \<open>str.lower\<close> as for SQLite's \<open>LOWER\<close>.
\<close>

definition lower_char :: "char \<Rightarrow> char" where
  "lower_char c =
     (if of_char c \<ge> (65::nat) \<and> of_char c \<le> (90::nat) then char_of (of_char c + (32::nat)) else c)"

definition lower :: "string \<Rightarrow> string" where
  "lower s = map lower_char s"

definition is_space :: "char \<Rightarrow> bool" where
  "is_space c \<longleftrightarrow> of_char c \<in> {9::nat, 10, 11, 12, 13, 32}"

text \<open>\<open>s.split()\<close>: the maximal runs of characters that are not whitespace.\<close>

fun split_from :: "string \<Rightarrow> string \<Rightarrow> string list" where
  "split_from cur [] = (if cur = [] then [] else [cur])"
| "split_from cur (c # cs) =
     (if is_space c then (if cur = [] then split_from [] cs else cur # split_from [] cs)
      else split_from (cur @ [c]) cs)"

definition split :: "string \<Rightarrow> string list" where
  "split s = split_from [] s"

text \<open>\<open>w in t\<close> for strings: \<open>w\<close> occurs in \<open>t\<close> as a contiguous piece.\<close>

fun contains :: "string \<Rightarrow> string \<Rightarrow> bool" where
  "contains w [] = (w = [])"
| "contains w (c # cs) = (take (length w) (c # cs) = w \<or> contains w cs)"

text \<open>SQLite's \<open>t LIKE p\<close>: \<open>%\<close> stands for any run of characters, \<open>_\<close> for any one
  character, and letters match without regard to ASCII case.\<close>

fun sql_like :: "string \<Rightarrow> string \<Rightarrow> bool" where
  "sql_like [] t = (t = [])"
| "sql_like (p # ps) t =
     (if p = CHR ''%'' then
        (sql_like ps t \<or> (case t of [] \<Rightarrow> False | c # cs \<Rightarrow> sql_like (p # ps) cs))
      else (case t of
              [] \<Rightarrow> False
            | c # cs \<Rightarrow> (p = CHR ''_'' \<or> lower_char p = lower_char c) \<and> sql_like ps cs))"

text \<open>Python's truth value of an optional string argument: None and the empty string
  are false.\<close>

definition truthy :: "string option \<Rightarrow> bool" where
  "truthy x = (case x of None \<Rightarrow> False | Some v \<Rightarrow> v \<noteq> [])"

subsection \<open>Result dictionaries\<close>

datatype relevance_type = Semantic | Emotional | Keyword

text \<open>
  The dictionaries the three search paths build. A key that a path does not set is
  \<open>None\<close> (\<open>similarity\<close> on the emotional path; \<open>mood\<close>, \<open>intensity\<close> and \<open>bit_worthy\<close>
  on the semantic path; \<open>interaction_id\<close> on the two SQL paths). \<open>emotion\<close> is set on
  every path and is \<open>None\<close> when the stored value is NULL.
\<close>

record memory =
  m_text :: string
  m_emotion :: "string option"
  m_mood :: "string option"
  m_tags :: "string option"
  m_timestamp :: "datetime option"
  m_intensity :: "int option"
  m_bit_worthy :: "bool option"
  m_similarity :: "real option"
  m_interaction_id :: "int option"
  m_relevance_type :: relevance_type

text \<open>\<open>x.get('similarity', d)\<close>.\<close>

definition get_similarity :: "real \<Rightarrow> memory \<Rightarrow> real" where
  "get_similarity d m = (case m_similarity m of None \<Rightarrow> d | Some v \<Rightarrow> v)"

subsection \<open>The vector index as the injector sees it\<close>

text \<open>
  The metadata of a stored vector. \<open>vm_timestamp = None\<close> stands for metadata whose
  \<open>timestamp\<close> is missing or is not an ISO string: reading it raises.
\<close>

record vmeta =
  vm_timestamp :: "datetime option"
  vm_emotion :: "string option"
  vm_tags :: "string option"
  vm_interaction_id :: "int option"
  vm_text_length :: "nat option"

text \<open>A hit of \<open>collection.query\<close>: document, metadata, distance.\<close>

type_synonym hit = "string \<times> vmeta \<times> real"

text \<open>
  The embedding model with the collection: \<open>encode\<close> followed by
  \<open>collection.query(n_results=n)\<close>, an external library whose answer is taken as it
  comes (\<open>Inl\<close> when it raises). \<open>None\<close> for the whole index is the state in which the
  model or the collection could not be loaded.
\<close>

type_synonym vindex = "string \<Rightarrow> int \<Rightarrow> error + hit list"

subsection \<open>The search paths\<close>

text \<open>The dictionary built from one row on the keyword path; the relevance is the share
  of query words that occur in the lower-cased text.\<close>

definition keyword_memory :: "string list \<Rightarrow> interaction \<Rightarrow> memory" where
  "keyword_memory query_words row =
     (let text_lower = lower (i_text row);
          matches = length (filter (\<lambda>word. contains word text_lower) query_words);
          relevance = (if query_words \<noteq> [] then real matches / real (length query_words) else 0)
      in \<lparr>m_text = i_text row, m_emotion = i_emotion row, m_mood = i_mood row,
          m_tags = i_tags row, m_timestamp = Some (i_timestamp row),
          m_intensity = i_intensity row, m_bit_worthy = Some (i_bit_worthy row),
          m_similarity = Some relevance, m_interaction_id = None,
          m_relevance_type = Keyword\<rparr>)"

text \<open>
  \<open>_fallback_memory_search\<close>. \<open>dbf\<close> is the database file, \<open>None\<close> when the path does
  not exist; \<open>ago d\<close> is \<open>datetime.now() - timedelta(days=d)\<close>. A query without words
  makes the WHERE clause \<open>()\<close>, a syntax error that the \<open>except\<close> turns into the empty
  list.
\<close>

definition fallback_memory_search ::
  "db option \<Rightarrow> (int \<Rightarrow> datetime) \<Rightarrow> string \<Rightarrow> string option \<Rightarrow> int \<Rightarrow> int \<Rightarrow> memory list" where
  "fallback_memory_search dbf ago query_text emotion limit days_back =
     (case dbf of
        None \<Rightarrow> []
      | Some s \<Rightarrow>
          (let query_words = split (lower query_text);
               cutoff_date = ago days_back
           in if query_words = [] then []
              else map (keyword_memory query_words)
                     (sql_limit limit
                        (sort_desc i_timestamp
                           (filter
                              (\<lambda>r. list_ex (\<lambda>word. sql_like (''%'' @ word @ ''%'') (lower (i_text r)))
                                      query_words \<and>
                                    cutoff_date \<le> i_timestamp r \<and>
                                    (truthy emotion \<longrightarrow> i_emotion r = emotion \<or> i_mood r = emotion))
                              (interactions s))))))"

text \<open>One pass of the loop of \<open>find_similar_memories\<close> over a hit whose timestamp reads:
  the hit is skipped when it is older than the cutoff or its similarity is under the
  topical threshold 0.7.\<close>

definition semantic_similarity :: "string option \<Rightarrow> vmeta \<Rightarrow> real \<Rightarrow> real" where
  "semantic_similarity emotion metadata distance =
     (let similarity = 1 - distance
      in if truthy emotion \<and> vm_emotion metadata \<noteq> emotion then similarity * (7 / 10)
         else similarity)"

definition semantic_memory :: "string option \<Rightarrow> datetime \<Rightarrow> hit \<Rightarrow> memory list" where
  "semantic_memory emotion cutoff_date h =
     (case h of (doc, metadata, distance) \<Rightarrow>
        (case vm_timestamp metadata of
           None \<Rightarrow> []
         | Some memory_date \<Rightarrow>
             if memory_date < cutoff_date then []
             else let similarity = semantic_similarity emotion metadata distance
                  in if similarity \<ge> 7 / 10 then
                       [\<lparr>m_text = doc, m_emotion = vm_emotion metadata, m_mood = None,
                         m_tags = vm_tags metadata, m_timestamp = vm_timestamp metadata,
                         m_intensity = None, m_bit_worthy = None,
                         m_similarity = Some similarity,
                         m_interaction_id = vm_interaction_id metadata,
                         m_relevance_type = Semantic\<rparr>]
                     else []))"

text \<open>
  \<open>find_similar_memories\<close>. Without an index the keyword search answers. With one, any
  exception inside the \<open>try\<close> (the query raising, a timestamp that does not read) also
  ends in the keyword search; otherwise the kept hits are sorted by similarity,
  largest first, and cut to \<open>limit\<close>.
\<close>

definition find_similar_memories ::
  "vindex option \<Rightarrow> db option \<Rightarrow> (int \<Rightarrow> datetime) \<Rightarrow> string \<Rightarrow> string option \<Rightarrow> int \<Rightarrow> int \<Rightarrow>
   memory list" where
  "find_similar_memories index dbf ago query_text emotion limit days_back =
     (case index of
        None \<Rightarrow> fallback_memory_search dbf ago query_text emotion limit days_back
      | Some query \<Rightarrow>
          (case query query_text (limit * 2) of
             Inl e \<Rightarrow> fallback_memory_search dbf ago query_text emotion limit days_back
           | Inr hits \<Rightarrow>
               if list_ex (\<lambda>h. vm_timestamp (fst (snd h)) = None) hits
               then fallback_memory_search dbf ago query_text emotion limit days_back
               else py_take limit
                      (sort_desc (get_similarity 0)
                         (concat (map (semantic_memory emotion (ago days_back)) hits)))))"

definition emotional_memory :: "interaction \<Rightarrow> memory" where
  "emotional_memory row =
     \<lparr>m_text = i_text row, m_emotion = i_emotion row, m_mood = i_mood row,
      m_tags = i_tags row, m_timestamp = Some (i_timestamp row),
      m_intensity = i_intensity row, m_bit_worthy = Some (i_bit_worthy row),
      m_similarity = None, m_interaction_id = None, m_relevance_type = Emotional\<rparr>"

text \<open>\<open>find_emotional_memories\<close>: the rows whose emotion or mood is the one asked for,
  newest first.\<close>

definition find_emotional_memories ::
  "db option \<Rightarrow> (int \<Rightarrow> datetime) \<Rightarrow> string \<Rightarrow> int \<Rightarrow> int \<Rightarrow> memory list" where
  "find_emotional_memories dbf ago emotion limit days_back =
     (case dbf of
        None \<Rightarrow> []
      | Some s \<Rightarrow>
          map emotional_memory
            (sql_limit limit
               (sort_desc i_timestamp
                  (filter (\<lambda>r. (i_emotion r = Some emotion \<or> i_mood r = Some emotion) \<and>
                                ago days_back \<le> i_timestamp r)
                     (interactions s)))))"

subsection \<open>Merging: \<open>inject_context_memories\<close>\<close>

text \<open>The loop that keeps the first dictionary of every text; \<open>seen_texts\<close> is the set
  of texts met so far.\<close>

fun unique_memories :: "string set \<Rightarrow> memory list \<Rightarrow> memory list" where
  "unique_memories seen_texts [] = []"
| "unique_memories seen_texts (m # ms) =
     (if m_text m \<notin> seen_texts then m # unique_memories (insert (m_text m) seen_texts) ms
      else unique_memories seen_texts ms)"

text \<open>Lines 304 to 317: concatenate topical before emotional, drop repeated texts, sort
  by \<open>x.get('similarity', 0)\<close> with the largest first, cut to \<open>max_memories\<close>.\<close>

definition merge_memories :: "int \<Rightarrow> memory list \<Rightarrow> memory list \<Rightarrow> memory list" where
  "merge_memories max_memories topical_memories emotional_memories =
     (let all_memories = topical_memories @ emotional_memories
      in py_take max_memories
           (sort_desc (get_similarity 0) (unique_memories {} all_memories)))"

text \<open>Lines 292 to 317, the value stored under \<open>relevant_memories\<close>: the topical search
  is called without an emotion and over 30 days, the emotional search only for a
  current emotion that is not empty, with half the limit and over 14 days.\<close>

definition retrieve ::
  "vindex option \<Rightarrow> db option \<Rightarrow> (int \<Rightarrow> datetime) \<Rightarrow> string \<Rightarrow> string option \<Rightarrow> int \<Rightarrow>
   memory list" where
  "retrieve index dbf ago current_text current_emotion max_memories =
     merge_memories max_memories
       (find_similar_memories index dbf ago current_text None max_memories 30)
       (case current_emotion of
          None \<Rightarrow> []
        | Some e \<Rightarrow>
            if e \<noteq> [] then find_emotional_memories dbf ago e (max_memories div 2) 14 else [])"

text \<open>
  \<open>_generate_memory_summary\<close>. \<open>', '.join\<close> raises TypeError when one of the emotions is
  None. The order in which Python walks \<open>set(emotions)\<close> is not fixed; the model lists
  each emotion at its first occurrence.
\<close>

definition generate_memory_summary :: "memory list \<Rightarrow> error + string" where
  "generate_memory_summary memories =
     (if memories = [] then Inr ''No relevant memories found.''
      else
        let emotional_memories = filter (\<lambda>m. m_relevance_type m = Emotional) memories;
            semantic_memories = filter (\<lambda>m. m_relevance_type m = Semantic) memories;
            emotions = map m_emotion emotional_memories;
            bit_worthy_count = length (filter (\<lambda>m. m_bit_worthy m = Some True) memories)
        in if emotional_memories \<noteq> [] \<and> None \<in> set emotions then Inl TypeError
           else Inr (join '' | ''
                  ((if emotional_memories \<noteq> []
                    then [''Similar emotional states: '' @
                          join '', '' (remdups (map the emotions))]
                    else []) @
                   (if semantic_memories \<noteq> []
                    then [''Found '' @ str_nat (length semantic_memories) @
                          '' topically related memories'']
                    else []) @
                   (if bit_worthy_count > 0
                    then [str_nat bit_worthy_count @ '' comedy-worthy moments'']
                    else []))))"

record memory_context =
  c_current_input :: string
  c_current_emotion :: "string option"
  c_relevant_memories :: "memory list"
  c_memory_summary :: string
  c_injection_timestamp :: datetime

text \<open>\<open>inject_context_memories\<close>: the retrieval above, then the summary when anything was
  found. Nothing in this method catches an exception.\<close>

definition inject_context_memories ::
  "vindex option \<Rightarrow> db option \<Rightarrow> datetime \<Rightarrow> (int \<Rightarrow> datetime) \<Rightarrow> string \<Rightarrow> string option \<Rightarrow> int \<Rightarrow>
   error + memory_context" where
  "inject_context_memories index dbf now ago current_text current_emotion max_memories =
     (let relevant = retrieve index dbf ago current_text current_emotion max_memories;
          ctx = \<lparr>c_current_input = current_text, c_current_emotion = current_emotion,
                 c_relevant_memories = relevant, c_memory_summary = [],
                 c_injection_timestamp = now\<rparr>
      in if relevant = [] then Inr ctx
         else case generate_memory_summary relevant of
                Inl e \<Rightarrow> Inl e
              | Inr summary \<Rightarrow> Inr (ctx\<lparr>c_memory_summary := summary\<rparr>))"

subsection \<open>Writing to the vector index: \<open>add_memory\<close> and \<open>sync_sql_to_vector_db\<close>\<close>

text \<open>An entry of the collection: its id, the document and the metadata (the embedding
  vector plays no part in what follows).\<close>

record ventry =
  v_id :: string
  v_document :: string
  v_metadata :: vmeta

text \<open>\<open>collection.add\<close>: the entry is stored under its id; an id the collection already
  holds is left as it is.\<close>

definition collection_add :: "ventry \<Rightarrow> ventry list \<Rightarrow> ventry list" where
  "collection_add e coll = (if v_id e \<in> set (map v_id coll) then coll else coll @ [e])"

text \<open>
  \<open>add_memory\<close>. \<open>loaded\<close> says that the embedding model and the collection are both
  there. The id of the new entry is made of the time of the call, to the second, and the
  interaction id (\<open>None\<close> prints as the word None).
\<close>

definition add_memory ::
  "bool \<Rightarrow> datetime \<Rightarrow> string \<Rightarrow> string option \<Rightarrow> string option \<Rightarrow> int option \<Rightarrow> ventry list \<Rightarrow>
   bool \<times> ventry list" where
  "add_memory loaded now text_arg emotion tags interaction_id coll =
     (if \<not> loaded then (False, coll)
      else
        let metadata = \<lparr>vm_timestamp = Some now,
                        vm_emotion = (if truthy emotion then emotion else Some ''neutral''),
                        vm_tags = (if truthy tags then tags else Some []),
                        vm_interaction_id = Some (case interaction_id of None \<Rightarrow> 0 | Some i \<Rightarrow> i),
                        vm_text_length = Some (length text_arg)\<rparr>;
            doc_id = ''memory_'' @ strftime_compact now @ ''_'' @
                     (case interaction_id of None \<Rightarrow> ''None'' | Some i \<Rightarrow> str_int i)
        in (True, collection_add \<lparr>v_id = doc_id, v_document = text_arg, v_metadata = metadata\<rparr> coll))"

text \<open>One pass of the loop of \<open>sync_sql_to_vector_db\<close>: the row is skipped when the
  collection holds the id made of the row's stored timestamp (an ISO string) and its
  id; otherwise \<open>add_memory\<close> is called and a success is counted.\<close>

definition sync_row :: "datetime \<Rightarrow> interaction \<Rightarrow> int \<times> ventry list \<Rightarrow> int \<times> ventry list" where
  "sync_row now row acc =
     (case acc of (synced_count, coll) \<Rightarrow>
        (let doc_id = ''memory_'' @ isoformat (i_timestamp row) @ ''_'' @ str_int (i_id row)
         in if doc_id \<in> set (map v_id coll) then (synced_count, coll)
            else case add_memory True now (i_text row) (i_emotion row) (i_tags row)
                        (Some (i_id row)) coll of
                   (ok, coll') \<Rightarrow> (if ok then synced_count + 1 else synced_count, coll')))"

definition sync_sql_to_vector_db ::
  "bool \<Rightarrow> db option \<Rightarrow> datetime \<Rightarrow> (int \<Rightarrow> datetime) \<Rightarrow> int \<Rightarrow> ventry list \<Rightarrow> int \<times> ventry list" where
  "sync_sql_to_vector_db loaded dbf now ago days_back coll =
     (if \<not> loaded then (0, coll)
      else case dbf of
        None \<Rightarrow> (0, coll)
      | Some s \<Rightarrow>
          fold (sync_row now)
            (sort_desc i_timestamp
               (filter (\<lambda>r. ago days_back \<le> i_timestamp r) (interactions s)))
            (0, coll))"

section \<open>The prompt: \<open>BhoolaRAGEngine.generate_context_prompt\<close>\<close>






text \<open>Lines 306 to 308: a prompt longer than \<open>max_context_length\<close> is sliced there and
  three dots are appended.\<close>

definition limit_prompt :: "int \<Rightarrow> string \<Rightarrow> string" where
  "limit_prompt max_context_length prompt =
     (if int (length prompt) > max_context_length
      then py_take max_context_length prompt @ ''...''
      else prompt)"




section \<open>Auxiliary definitions for the statements\<close>

text \<open>What a delete that finds its row leaves behind.\<close>

definition deleted_state :: "datetime \<Rightarrow> int \<Rightarrow> string \<Rightarrow> interaction \<Rightarrow> db \<Rightarrow> db" where
  "deleted_state now i reason orig s =
     \<lparr>interactions = filter (\<lambda>r. i_id r \<noteq> i) (interactions s) @
                       [(deletion_log_row now i reason orig)\<lparr>i_id := next_rowid s\<rparr>],
      seq = next_rowid s,
      deleted_interactions = deleted_interactions s @
        [\<lparr>d_id = i, original_text = i_text orig, deletion_reason = reason,
          deletion_timestamp = now, original_data = orig,
          backup_location = ''backups/pre_delete/pre_delete_'' @ strftime_compact now @ ''.db''\<rparr>]\<rparr>"

text \<open>A small database for the concrete instances: one live row, nothing deleted.\<close>

definition example_now :: datetime where
  "example_now = (2025, 7, 19, 10, 0, 0, 0)"

definition example_row :: interaction where
  "example_row =
     \<lparr>i_id = 1, i_text = ''I love debugging at night'', i_source = Some ''manual'',
      i_tags = Some ''coding'', i_emotion = Some ''calm'', i_mood = None,
      i_intensity = Some 5, i_bit_worthy = False, i_timestamp = example_now,
      i_created_at = example_now\<rparr>"

definition example_db :: db where
  "example_db = \<lparr>interactions = [example_row], seq = 1, deleted_interactions = []\<rparr>"

text \<open>Concrete inputs of the retrieval: the metadata of a stored vector, an index that
  answers every query with one hit at distance 0.2, a clock whose cutoffs lie a month
  back, and two more databases.\<close>

definition example_meta :: vmeta where
  "example_meta =
     \<lparr>vm_timestamp = Some example_now, vm_emotion = Some ''calm'', vm_tags = Some ''coding'',
      vm_interaction_id = Some 1, vm_text_length = Some 25\<rparr>"

definition example_index :: vindex where
  "example_index = (\<lambda>q n. Inr [(''I love debugging at night'', example_meta, 1 / 5)])"

definition example_ago :: "int \<Rightarrow> datetime" where
  "example_ago = (\<lambda>d. (2025, 6, 19, 10, 0, 0, 0))"

definition example_db2 :: db where
  "example_db2 =
     \<lparr>interactions =
        [\<lparr>i_id = 1, i_text = ''Debugging marathon, so tired'', i_source = Some ''manual'',
          i_tags = None, i_emotion = Some ''tired'', i_mood = None, i_intensity = Some 5,
          i_bit_worthy = False, i_timestamp = (2025, 7, 18, 9, 0, 0, 0),
          i_created_at = (2025, 7, 18, 9, 0, 0, 0)\<rparr>,
         \<lparr>i_id = 2, i_text = ''Quiet evening walk'', i_source = Some ''manual'',
          i_tags = None, i_emotion = Some ''calm'', i_mood = None, i_intensity = Some 5,
          i_bit_worthy = False, i_timestamp = (2025, 7, 18, 20, 0, 0, 0),
          i_created_at = (2025, 7, 18, 20, 0, 0, 0)\<rparr>],
      seq = 2, deleted_interactions = []\<rparr>"

definition example_db3 :: db where
  "example_db3 =
     \<lparr>interactions =
        [\<lparr>i_id = 1, i_text = ''Long day'', i_source = Some ''manual'', i_tags = None,
          i_emotion = None, i_mood = Some ''happy'', i_intensity = Some 1,
          i_bit_worthy = False, i_timestamp = (2025, 7, 18, 9, 0, 0, 0),
          i_created_at = (2025, 7, 18, 9, 0, 0, 0)\<rparr>],
      seq = 1, deleted_interactions = []\<rparr>"

text \<open>The merge with the score the specification gives to a record without similarity.\<close>

definition merge_memories_spec :: "int \<Rightarrow> memory list \<Rightarrow> memory list \<Rightarrow> memory list" where
  "merge_memories_spec max_memories topical_memories emotional_memories =
     py_take max_memories
       (sort_desc (get_similarity (1 / 2))
          (unique_memories {} (topical_memories @ emotional_memories)))"


definition first_sync :: "int \<times> ventry list" where
  "first_sync =
     sync_sql_to_vector_db True (Some example_db) (2025, 7, 19, 10, 0, 1, 0) example_ago 7 []"

definition second_sync :: "int \<times> ventry list" where
  "second_sync =
     sync_sql_to_vector_db True (Some example_db) (2025, 7, 19, 10, 0, 2, 0) example_ago 7
       (snd first_sync)"

section \<open>The Record Store and delete protection: properties\<close>


lemma fold_max_ge: "(a::int) \<le> fold max xs a"
proof (induction xs arbitrary: a)
  case Nil
  show ?case by simp
next
  case (Cons y ys)
  have "a \<le> max y a" by simp
  also have "max y a \<le> fold max ys (max y a)" by (rule Cons.IH)
  finally show ?case by simp
qed

lemma fold_max_mem: "x \<in> set xs \<Longrightarrow> (x::int) \<le> fold max xs a"
proof (induction xs arbitrary: a)
  case Nil
  then show ?case by simp
next
  case (Cons y ys)
  show ?case
  proof (cases "x = y")
    case True
    have "y \<le> max y a" by simp
    also have "max y a \<le> fold max ys (max y a)" by (rule fold_max_ge)
    finally show ?thesis using True by simp
  next
    case False
    then show ?thesis using Cons by simp
  qed
qed

lemma next_rowid_gt: "r \<in> set (interactions s) \<Longrightarrow> i_id r < next_rowid s"
  using fold_max_mem [of "i_id r" "map i_id (interactions s)" 0]
  by (simp add: next_rowid_def)

lemma next_rowid_gt_seq: "seq s < next_rowid s"
  by (simp add: next_rowid_def)

lemma next_rowid_fresh: "next_rowid s \<notin> set (map i_id (interactions s))"
  using next_rowid_gt by fastforce

lemma interactions_insert_row [simp]:
  "interactions (insert_row r s) = interactions s @ [r\<lparr>i_id := next_rowid s\<rparr>]"
  by (simp add: insert_row_def)

lemma seq_insert_row [simp]: "seq (insert_row r s) = next_rowid s"
  by (simp add: insert_row_def)

lemma deleted_insert_row [simp]:
  "deleted_interactions (insert_row r s) = deleted_interactions s"
  by (simp add: insert_row_def)

lemma find_row_id:
  "find (\<lambda>r. i_id r = i) rows = Some orig \<Longrightarrow> orig \<in> set rows \<and> i_id orig = i"
  by (induction rows) (auto split: if_splits)

lemma find_row_none:
  "find (\<lambda>r. i_id r = i) rows = None \<longleftrightarrow> i \<notin> set (map i_id rows)"
  by (induction rows) auto

lemma find_row_distinct:
  "distinct (map i_id rows) \<Longrightarrow> r \<in> set rows \<Longrightarrow> find (\<lambda>x. i_id x = i_id r) rows = Some r"
  by (induction rows) (auto simp: image_iff)

lemma wf_db_empty: "wf_db empty_db"
  by (simp add: wf_db_def empty_db_def)

lemma wf_db_insert_row: "wf_db s \<Longrightarrow> wf_db (insert_row r s)"
  using next_rowid_fresh [of s] next_rowid_gt_seq [of s]
  by (auto simp: wf_db_def list_all_iff)

lemma safe_delete_found:
  assumes "find (\<lambda>r. i_id r = i) (interactions s) = Some orig"
  shows "safe_delete_interaction True now i reason s = (Inr True, deleted_state now i reason orig s)"
proof -
  from assms have "orig \<in> set (interactions s)" and "i_id orig = i"
    using find_row_id by blast+
  then have "next_rowid s \<noteq> i" using next_rowid_gt by fastforce
  then show ?thesis using assms
    by (simp add: safe_delete_interaction_def safe_delete_body_def deleted_state_def Let_def
        insert_row_def)
qed

lemma safe_delete_missing:
  assumes "i \<notin> set (map i_id (interactions s))"
  shows "safe_delete_interaction b now i reason s = (Inr False, s)"
proof -
  from assms have "find (\<lambda>r. i_id r = i) (interactions s) = None"
    using find_row_none by blast
  then show ?thesis
    by (simp add: safe_delete_interaction_def safe_delete_body_def)
qed

lemma safe_delete_no_backup:
  "safe_delete_interaction False now i reason s = (Inr False, s)"
  by (simp add: safe_delete_interaction_def safe_delete_body_def)


lemma id_gone_after_delete:
  "i \<notin> set (map i_id (interactions (deleted_state now i reason orig s))) \<longleftrightarrow>
     next_rowid s \<noteq> i"
  by (auto simp: deleted_state_def)

lemma set_insort_desc: "set (insort_desc f x xs) = insert x (set xs)"
  by (induction xs) auto

lemma set_sort_desc [simp]: "set (sort_desc f xs) = set xs"
  by (induction xs) (simp_all add: sort_desc_def set_insort_desc)

text \<open>
  C9, as the code has it: \<open>add_interaction\<close> validates nothing. For every text
  string, the empty one included, the insert succeeds, the id it returns is assigned by
  the store and is the id of no live row (so there is no duplicate-key failure), and the
  table gains exactly one row with that id and that text.
\<close>
theorem add_interaction_any_text:
  "case add_interaction now (Some t) source tags emotion mood intensity bit_worthy s of
     Inl e \<Rightarrow> False
   | Inr (new_id, s') \<Rightarrow>
       new_id \<notin> set (map i_id (interactions s)) \<and>
       (\<exists>r. interactions s' = interactions s @ [r] \<and> i_id r = new_id \<and> i_text r = t)"
  using next_rowid_fresh [of s]
  by (simp add: add_interaction_def)

text \<open>The claim as written asks for a ValidationError on empty text. On a fresh store the
  empty text is inserted under id 1.\<close>
theorem add_interaction_empty_text_counterexample:
  "add_interaction (2025, 7, 19, 10, 0, 0, 0) (Some []) (Some ''manual'') None None None
       (Some 1) False empty_db =
     Inr (1, \<lparr>interactions =
                [\<lparr>i_id = 1, i_text = [], i_source = Some ''manual'', i_tags = None,
                  i_emotion = None, i_mood = None, i_intensity = Some 1,
                  i_bit_worthy = False, i_timestamp = (2025, 7, 19, 10, 0, 0, 0),
                  i_created_at = (2025, 7, 19, 10, 0, 0, 0)\<rparr>],
              seq = 1, deleted_interactions = []\<rparr>) \<and>
   add_interaction (2025, 7, 19, 10, 0, 0, 0) (Some []) (Some ''manual'') None None None
       (Some 1) False empty_db \<noteq> Inl ValidationError"
  by (simp add: add_interaction_def insert_row_def next_rowid_def empty_db_def)

text \<open>
  C7, as the code has it: \<open>safe_delete_interaction\<close> on an id that no live row has
  returns False and leaves the database as it is (it does not raise); on the id of a live
  row the first call returns True and a second call returns False.
\<close>
theorem safe_delete_unknown_then_twice:
  "(i \<notin> set (map i_id (interactions s)) \<longrightarrow>
      safe_delete_interaction b now i reason s = (Inr False, s)) \<and>
   (j \<in> set (map i_id (interactions s2)) \<longrightarrow>
      fst (safe_delete_interaction True now1 j reason1 s2) = Inr True \<and>
      fst (safe_delete_interaction b2 now2 j reason2
             (snd (safe_delete_interaction True now1 j reason1 s2))) = Inr False)"
proof (intro conjI impI)
  assume "i \<notin> set (map i_id (interactions s))"
  then show "safe_delete_interaction b now i reason s = (Inr False, s)"
    by (rule safe_delete_missing)
next
  assume live: "j \<in> set (map i_id (interactions s2))"
  then obtain orig where found: "find (\<lambda>r. i_id r = j) (interactions s2) = Some orig"
    using find_row_none [of j "interactions s2"] by (cases "find (\<lambda>r. i_id r = j) (interactions s2)") auto
  have first: "safe_delete_interaction True now1 j reason1 s2 =
                 (Inr True, deleted_state now1 j reason1 orig s2)"
    by (rule safe_delete_found [OF found])
  show "fst (safe_delete_interaction True now1 j reason1 s2) = Inr True"
    by (simp add: first)
  from found have "orig \<in> set (interactions s2)" "i_id orig = j"
    using find_row_id by blast+
  then have "next_rowid s2 \<noteq> j" using next_rowid_gt by fastforce
  then have "j \<notin> set (map i_id (interactions (deleted_state now1 j reason1 orig s2)))"
    using id_gone_after_delete by blast
  then have "safe_delete_interaction b2 now2 j reason2 (deleted_state now1 j reason1 orig s2) =
               (Inr False, deleted_state now1 j reason1 orig s2)"
    by (rule safe_delete_missing)
  then show "fst (safe_delete_interaction b2 now2 j reason2
                (snd (safe_delete_interaction True now1 j reason1 s2))) = Inr False"
    by (simp add: first)
qed

theorem safe_delete_unknown_then_twice_witness:
  "9999 \<notin> set (map i_id (interactions empty_db)) \<and>
   safe_delete_interaction True example_now 9999 ''AI request'' empty_db = (Inr False, empty_db) \<and>
   1 \<in> set (map i_id (interactions example_db)) \<and>
   fst (safe_delete_interaction True example_now 1 ''AI request'' example_db) = Inr True \<and>
   fst (safe_delete_interaction True example_now 1 ''AI request''
          (snd (safe_delete_interaction True example_now 1 ''AI request'' example_db))) = Inr False"
proof -
  have a: "9999 \<notin> set (map i_id (interactions empty_db))"
    by (simp add: empty_db_def)
  have b: "1 \<in> set (map i_id (interactions example_db))"
    by (simp add: example_db_def example_row_def)
  show ?thesis
    using a b
      safe_delete_unknown_then_twice [of 9999 empty_db True example_now "''AI request''" 1
        example_db example_now "''AI request''" True example_now "''AI request''"]
    by blast
qed

text \<open>The claim as written asks for NotFoundError on id 9999 of a fresh store. The call
  returns False.\<close>
theorem safe_delete_unknown_id_counterexample:
  "safe_delete_interaction True (2025, 7, 19, 10, 0, 0, 0) 9999 ''AI request'' empty_db =
     (Inr False, empty_db) \<and>
   fst (safe_delete_interaction True (2025, 7, 19, 10, 0, 0, 0) 9999 ''AI request'' empty_db)
     \<noteq> Inl NotFoundError"
  by (simp add: safe_delete_interaction_def safe_delete_body_def empty_db_def)



lemma find_tombstone_none:
  "find (\<lambda>t. d_id t = i) ts = None \<longleftrightarrow> i \<notin> set (map d_id ts)"
  by (induction ts) auto

lemma find_tombstone_last:
  "i \<notin> set (map d_id ts) \<Longrightarrow> d_id t = i \<Longrightarrow> find (\<lambda>t. d_id t = i) (ts @ [t]) = Some t"
  by (induction ts) auto

lemma wf_db_no_tombstone:
  assumes "wf_db s" and "r \<in> set (interactions s)"
  shows "i_id r \<notin> set (map d_id (deleted_interactions s))"
proof
  assume "i_id r \<in> set (map d_id (deleted_interactions s))"
  then obtain t where t: "t \<in> set (deleted_interactions s)" "d_id t = i_id r" by auto
  from assms(1) t(1) have "d_id t \<notin> set (map i_id (interactions s))"
    unfolding wf_db_def list_all_iff by blast
  with assms(2) t(2) show False by simp
qed

lemma restore_missing:
  "i \<notin> set (map d_id (deleted_interactions s)) \<Longrightarrow>
     restore_deleted_interaction now i s = (Inr False, s)"
  using find_tombstone_none [of i "deleted_interactions s"]
  by (simp add: restore_deleted_interaction_def)

lemma restore_found:
  assumes "find (\<lambda>t. d_id t = i) (deleted_interactions s) = Some t"
  shows "fst (restore_deleted_interaction now i s) = Inr True \<and>
         (original_data t)\<lparr>i_id := next_rowid s, i_created_at := now\<rparr>
           \<in> set (interactions (snd (restore_deleted_interaction now i s)))"
  using assms by (simp add: restore_deleted_interaction_def Let_def)

text \<open>
  C6: for every live row \<open>r\<close> of a well-formed database, after
  \<open>safe_delete_interaction\<close> on its id followed by \<open>restore_deleted_interaction\<close> on
  the same id the live table holds a row with the text, emotion and tags of \<open>r\<close>. When
  the backup copy succeeds both calls return True and the delete has removed \<open>r\<close>, so
  the row found afterwards is the restored one, under a new id.
\<close>
theorem soft_delete_restore_round_trip:
  assumes "wf_db s" and "r \<in> set (interactions s)"
  shows "(backup_ok \<longrightarrow>
            fst (safe_delete_interaction backup_ok now (i_id r) reason s) = Inr True \<and>
            fst (restore_deleted_interaction now' (i_id r)
                   (snd (safe_delete_interaction backup_ok now (i_id r) reason s))) = Inr True \<and>
            r \<notin> set (interactions (snd (safe_delete_interaction backup_ok now (i_id r) reason s)))) \<and>
         (\<exists>r' \<in> set (interactions
                       (snd (restore_deleted_interaction now' (i_id r)
                          (snd (safe_delete_interaction backup_ok now (i_id r) reason s))))).
            i_text r' = i_text r \<and> i_emotion r' = i_emotion r \<and> i_tags r' = i_tags r)"
proof (cases backup_ok)
  case False
  have s1: "safe_delete_interaction backup_ok now (i_id r) reason s = (Inr False, s)"
    using False safe_delete_no_backup by simp
  have "restore_deleted_interaction now' (i_id r) s = (Inr False, s)"
    by (rule restore_missing) (rule wf_db_no_tombstone [OF assms])
  then show ?thesis using False s1 assms(2) by auto
next
  case True
  from assms have found: "find (\<lambda>x. i_id x = i_id r) (interactions s) = Some r"
    by (simp add: wf_db_def find_row_distinct)
  define s1 where "s1 = deleted_state now (i_id r) reason r s"
  have del: "safe_delete_interaction backup_ok now (i_id r) reason s = (Inr True, s1)"
    using True safe_delete_found [OF found] by (simp add: s1_def)
  define t where "t = last (deleted_interactions s1)"
  have t: "d_id t = i_id r" "original_data t = r"
    by (simp_all add: t_def s1_def deleted_state_def)
  have "deleted_interactions s1 = deleted_interactions s @ [t]"
    by (simp add: t_def s1_def deleted_state_def)
  then have tomb: "find (\<lambda>t. d_id t = i_id r) (deleted_interactions s1) = Some t"
    using find_tombstone_last [OF wf_db_no_tombstone [OF assms] t(1)] by simp
  from restore_found [OF tomb, of now']
  have ok: "fst (restore_deleted_interaction now' (i_id r) s1) = Inr True"
    and mem: "r\<lparr>i_id := next_rowid s1, i_created_at := now'\<rparr>
                \<in> set (interactions (snd (restore_deleted_interaction now' (i_id r) s1)))"
    by (simp_all add: t)
  have "next_rowid s \<noteq> i_id r" using next_rowid_gt [OF assms(2)] by simp
  moreover have "i_id ((deletion_log_row now (i_id r) reason r)\<lparr>i_id := next_rowid s\<rparr>) =
                   next_rowid s" by simp
  ultimately have "r \<noteq> (deletion_log_row now (i_id r) reason r)\<lparr>i_id := next_rowid s\<rparr>"
    by metis
  then have gone: "r \<notin> set (interactions s1)"
    by (simp add: s1_def deleted_state_def)
  show ?thesis
    using del ok gone mem by (auto intro!: bexI [OF _ mem])
qed

theorem soft_delete_restore_round_trip_witness:
  "wf_db example_db \<and> example_row \<in> set (interactions example_db) \<and>
   (\<exists>r' \<in> set (interactions
                 (snd (restore_deleted_interaction example_now (i_id example_row)
                    (snd (safe_delete_interaction True example_now (i_id example_row)
                            ''AI request'' example_db))))).
      i_text r' = i_text example_row \<and> i_emotion r' = i_emotion example_row \<and>
      i_tags r' = i_tags example_row)"
proof -
  have a: "wf_db example_db"
    by (simp add: wf_db_def example_db_def)
  have b: "example_row \<in> set (interactions example_db)"
    by (simp add: example_db_def)
  show ?thesis
    using a b soft_delete_restore_round_trip [OF a b, of True example_now "''AI request''" example_now]
    by blast
qed

lemma wf_db_safe_delete:
  assumes "wf_db s"
  shows "wf_db (snd (safe_delete_interaction b now i reason s))"
proof (cases "b \<and> i \<in> set (map i_id (interactions s))")
  case False
  then have "safe_delete_interaction b now i reason s = (Inr False, s)"
    using safe_delete_missing safe_delete_no_backup by (cases b) auto
  then show ?thesis using assms by simp
next
  case True
  then obtain orig where found: "find (\<lambda>r. i_id r = i) (interactions s) = Some orig"
    using find_row_none [of i "interactions s"]
    by (cases "find (\<lambda>r. i_id r = i) (interactions s)") auto
  then have orig: "orig \<in> set (interactions s)" "i_id orig = i"
    using find_row_id by blast+
  have lt: "\<forall>x \<in> set (interactions s). i_id x < next_rowid s"
    using next_rowid_gt by blast
  have "wf_db (deleted_state now i reason orig s)"
    using assms lt orig next_rowid_gt_seq [of s]
    by (auto simp: wf_db_def deleted_state_def list_all_iff distinct_map_filter)
  then show ?thesis using True safe_delete_found [OF found] by simp
qed

lemma wf_db_restore:
  assumes "wf_db s"
  shows "wf_db (snd (restore_deleted_interaction now i s))"
proof (cases "find (\<lambda>t. d_id t = i) (deleted_interactions s)")
  case None
  then show ?thesis using assms by (simp add: restore_deleted_interaction_def)
next
  case (Some t)
  have "wf_db (insert_row r2 (insert_row r1 s))" for r1 r2
    using assms by (intro wf_db_insert_row)
  then have "wf_db ((insert_row r2 (insert_row r1 s))
                     \<lparr>deleted_interactions := filter P (deleted_interactions s)\<rparr>)" for r1 r2 P
    by (auto simp: wf_db_def list_all_iff)
  then show ?thesis using Some
    by (simp add: restore_deleted_interaction_def Let_def)
qed

lemma wf_db_add_interaction:
  "wf_db s \<Longrightarrow> add_interaction now t src tags emo mood inten bw s = Inr (n, s') \<Longrightarrow> wf_db s'"
  by (auto simp: add_interaction_def wf_db_insert_row split: option.splits)

section \<open>Retrieval: properties\<close>


subsection \<open>Sorting\<close>

lemma length_insort_desc: "length (insort_desc f x xs) = Suc (length xs)"
  by (induction xs) auto

lemma length_sort_desc [simp]: "length (sort_desc f xs) = length xs"
  by (induction xs) (simp_all add: sort_desc_def length_insort_desc)

lemma distinct_map_insort_desc:
  "distinct (map g (insort_desc f x xs)) \<longleftrightarrow> distinct (map g (x # xs))"
  by (induction xs) (auto simp: set_insort_desc)

lemma distinct_map_sort_desc:
  "distinct (map g (sort_desc f xs)) \<longleftrightarrow> distinct (map g xs)"
proof (induction xs)
  case Nil
  show ?case by (simp add: sort_desc_def)
next
  case (Cons x xs)
  have "sort_desc f (x # xs) = insort_desc f x (sort_desc f xs)"
    by (simp add: sort_desc_def)
  then show ?case using Cons by (simp add: distinct_map_insort_desc)
qed

lemma sort_desc_constant_key:
  "\<forall>e \<in> set es. f e = c \<Longrightarrow> sort_desc f es = es"
proof (induction es)
  case Nil
  show ?case by (simp add: sort_desc_def)
next
  case (Cons e es)
  then have "sort_desc f es = es" by simp
  then have "sort_desc f (e # es) = insort_desc f e es" by (simp add: sort_desc_def)
  also have "\<dots> = e # es" using Cons.prems by (cases es) auto
  finally show ?case .
qed

lemma insort_desc_before_low:
  "\<forall>e \<in> set es. f e \<le> f x \<Longrightarrow> insort_desc f x (ss @ es) = insort_desc f x ss @ es"
proof (induction ss)
  case Nil
  then show ?case by (cases es) auto
next
  case (Cons s ss)
  then show ?case by simp
qed

lemma sort_desc_append_low:
  assumes "\<forall>e \<in> set es. f e = c" and "\<forall>t \<in> set ts. c \<le> f t"
  shows "sort_desc f (ts @ es) = sort_desc f ts @ es"
  using assms(2)
proof (induction ts)
  case Nil
  show ?case using sort_desc_constant_key [OF assms(1)] by (simp add: sort_desc_def)
next
  case (Cons t ts)
  then have ih: "sort_desc f (ts @ es) = sort_desc f ts @ es" by simp
  have low: "\<forall>e \<in> set es. f e \<le> f t" using assms(1) Cons.prems by auto
  have "sort_desc f ((t # ts) @ es) = insort_desc f t (sort_desc f (ts @ es))"
    by (simp add: sort_desc_def)
  also have "\<dots> = insort_desc f t (sort_desc f ts) @ es"
    by (simp only: ih insort_desc_before_low [OF low])
  also have "\<dots> = sort_desc f (t # ts) @ es" by (simp add: sort_desc_def)
  finally show ?case .
qed

subsection \<open>Dropping repeated texts\<close>

lemma unique_memories_append:
  "unique_memories seen (xs @ ys) =
     unique_memories seen xs @ unique_memories (seen \<union> m_text ` set xs) ys"
proof (induction xs arbitrary: seen)
  case Nil
  show ?case by simp
next
  case (Cons x xs)
  show ?case
  proof (cases "m_text x \<in> seen")
    case True
    then have "seen \<union> m_text ` set (x # xs) = seen \<union> m_text ` set xs" by auto
    then show ?thesis using True Cons by simp
  next
    case False
    have "insert (m_text x) seen \<union> m_text ` set xs = seen \<union> m_text ` set (x # xs)" by auto
    then show ?thesis using False Cons [of "insert (m_text x) seen"] by simp
  qed
qed

lemma set_unique_memories: "set (unique_memories seen xs) \<subseteq> set xs"
  by (induction xs arbitrary: seen) auto

lemma unique_memories_unseen:
  "m \<in> set (unique_memories seen xs) \<Longrightarrow> m_text m \<notin> seen"
  by (induction xs arbitrary: seen) (auto split: if_splits)

lemma distinct_unique_memories: "distinct (map m_text (unique_memories seen xs))"
proof (induction xs arbitrary: seen)
  case Nil
  show ?case by simp
next
  case (Cons x xs)
  have "m_text x \<notin> m_text ` set (unique_memories (insert (m_text x) seen) xs)"
  proof
    assume "m_text x \<in> m_text ` set (unique_memories (insert (m_text x) seen) xs)"
    then obtain y where y: "y \<in> set (unique_memories (insert (m_text x) seen) xs)"
      and eq: "m_text y = m_text x" by auto
    from unique_memories_unseen [OF y] eq show False by simp
  qed
  then show ?case using Cons by simp
qed

lemma length_unique_memories: "length (unique_memories seen xs) \<le> length xs"
  by (induction xs arbitrary: seen) (auto intro: le_SucI)

lemma first_kept:
  "find (\<lambda>x. m_text x = t) xs = Some m \<Longrightarrow> t \<notin> seen \<Longrightarrow> m \<in> set (unique_memories seen xs)"
proof (induction xs arbitrary: seen)
  case Nil
  then show ?case by simp
next
  case (Cons x xs)
  show ?case
  proof (cases "m_text x = t")
    case True
    then show ?thesis using Cons.prems by simp
  next
    case False
    then have "find (\<lambda>x. m_text x = t) xs = Some m" using Cons.prems by simp
    moreover have "t \<notin> insert (m_text x) seen" using False Cons.prems by auto
    ultimately show ?thesis using Cons.IH Cons.prems(2) by simp
  qed
qed

lemma filter_distinct_text:
  "distinct (map m_text xs) \<Longrightarrow> m \<in> set xs \<Longrightarrow> filter (\<lambda>x. m_text x = m_text m) xs = [m]"
proof (induction xs)
  case Nil
  then show ?case by simp
next
  case (Cons x xs)
  show ?case
  proof (cases "x = m")
    case True
    then have "m_text m \<notin> m_text ` set xs" using Cons.prems by simp
    then have "\<forall>y \<in> set xs. m_text y \<noteq> m_text m" by (metis imageI)
    then have "filter (\<lambda>x. m_text x = m_text m) xs = []" by (simp add: filter_empty_conv)
    then show ?thesis using True by simp
  next
    case False
    then have "m \<in> set xs" using Cons.prems by simp
    moreover have "m_text x \<notin> m_text ` set xs" using Cons.prems by simp
    ultimately have "m_text x \<noteq> m_text m" by (metis imageI)
    then show ?thesis using Cons \<open>m \<in> set xs\<close> by simp
  qed
qed

lemma find_text_Some:
  "find (\<lambda>x. m_text x = t) xs = Some m \<Longrightarrow> m \<in> set xs \<and> m_text m = t"
  by (induction xs) (auto split: if_splits)

lemma find_text_exists:
  "m \<in> set xs \<Longrightarrow> \<exists>m'. find (\<lambda>x. m_text x = m_text m) xs = Some m'"
  by (induction xs) auto

subsection \<open>The merge\<close>

lemma merge_memories_split:
  assumes top: "\<forall>m \<in> set ts. 0 \<le> get_similarity 0 m"
      and emo: "\<forall>m \<in> set es. get_similarity 0 m = 0"
  shows "merge_memories n ts es =
           py_take n (sort_desc (get_similarity 0) (unique_memories {} ts) @
                      unique_memories (m_text ` set ts) es)"
proof -
  have "\<forall>m \<in> set (unique_memories (m_text ` set ts) es). get_similarity 0 m = 0"
    using emo set_unique_memories by blast
  moreover have "\<forall>m \<in> set (unique_memories {} ts). 0 \<le> get_similarity 0 m"
    using top set_unique_memories by blast
  ultimately have "sort_desc (get_similarity 0)
                     (unique_memories {} ts @ unique_memories (m_text ` set ts) es) =
                   sort_desc (get_similarity 0) (unique_memories {} ts) @
                     unique_memories (m_text ` set ts) es"
    by (rule sort_desc_append_low)
  then show ?thesis
    by (simp add: merge_memories_def unique_memories_append)
qed

lemma merge_memories_text:
  assumes top: "\<forall>m \<in> set ts. 0 \<le> get_similarity 0 m"
      and emo: "\<forall>m \<in> set es. get_similarity 0 m = 0"
      and n: "0 \<le> n" "int (length ts) \<le> n"
      and first: "find (\<lambda>x. m_text x = t) ts = Some m"
  shows "filter (\<lambda>x. m_text x = t) (merge_memories n ts es) = [m]"
proof -
  let ?S = "sort_desc (get_similarity 0) (unique_memories {} ts)"
  let ?E = "unique_memories (m_text ` set ts) es"
  from first have m: "m \<in> set ts" "m_text m = t" using find_text_Some by blast+
  have "length ?S \<le> nat n" using length_unique_memories [of "{}" ts] n by simp
  then have take: "take (nat n) (?S @ ?E) = ?S @ take (nat n - length ?S) ?E" by simp
  have "m \<in> set ?S" using first_kept [OF first, of "{}"] by simp
  moreover have "distinct (map m_text ?S)"
    by (simp add: distinct_map_sort_desc distinct_unique_memories)
  ultimately have a: "filter (\<lambda>x. m_text x = t) ?S = [m]"
    using filter_distinct_text [of ?S m] m(2) by simp
  have "\<forall>x \<in> set ?E. m_text x \<noteq> t"
    using unique_memories_unseen [of _ "m_text ` set ts" es] m by auto
  then have "\<forall>x \<in> set (take (nat n - length ?S) ?E). m_text x \<noteq> t"
    using in_set_takeD by fast
  then have b: "filter (\<lambda>x. m_text x = t) (take (nat n - length ?S) ?E) = []"
    by (simp add: filter_empty_conv)
  have "merge_memories n ts es = take (nat n) (?S @ ?E)"
    using n(1) by (simp only: merge_memories_split [OF top emo] py_take_def if_True)
  also have "\<dots> = ?S @ take (nat n - length ?S) ?E" by (rule take)
  finally show ?thesis by (simp only: filter_append a b append_Nil2)
qed

subsection \<open>What each search path returns\<close>

lemma length_sql_limit: "0 \<le> n \<Longrightarrow> length (sql_limit n xs) \<le> nat n"
  by (simp add: sql_limit_def)

lemma set_sql_limit: "set (sql_limit n xs) \<subseteq> set xs"
  by (auto simp: sql_limit_def dest: in_set_takeD)

lemma length_py_take: "0 \<le> n \<Longrightarrow> length (py_take n xs) \<le> nat n"
  by (simp add: py_take_def)

lemma py_take_is_take: "\<exists>k. py_take n xs = take k xs"
proof (cases "0 \<le> n")
  case True
  then have "py_take n xs = take (nat n) xs" by (simp add: py_take_def)
  then show ?thesis ..
next
  case False
  then have "py_take n xs = take (length xs - nat (- n)) xs" by (simp add: py_take_def)
  then show ?thesis ..
qed

lemma set_py_take: "set (py_take n xs) \<subseteq> set xs"
  by (auto simp: py_take_def dest: in_set_takeD)

lemma keyword_memory_fields:
  "m_relevance_type (keyword_memory ws r) = Keyword \<and>
   m_text (keyword_memory ws r) = i_text r \<and>
   (\<exists>v. m_similarity (keyword_memory ws r) = Some v \<and> 0 \<le> v)"
  by (simp add: keyword_memory_def Let_def)

lemma fallback_memory_search_fields:
  assumes "m \<in> set (fallback_memory_search dbf ago q emotion limit days_back)"
  shows "m_relevance_type m = Keyword \<and> (\<exists>v. m_similarity m = Some v \<and> 0 \<le> v) \<and>
         (\<exists>s. dbf = Some s \<and> m_text m \<in> set (map i_text (interactions s)))"
proof (cases dbf)
  case None
  then show ?thesis using assms by (simp add: fallback_memory_search_def)
next
  case (Some s)
  then obtain r where r: "r \<in> set (interactions s)"
    and m: "m = keyword_memory (split (lower q)) r"
    using assms set_sql_limit
    by (fastforce simp: fallback_memory_search_def Let_def split: if_splits)
  show ?thesis using Some r keyword_memory_fields [of "split (lower q)" r] by (auto simp: m)
qed

lemma length_fallback_memory_search:
  "0 \<le> limit \<Longrightarrow> length (fallback_memory_search dbf ago q emotion limit days_back) \<le> nat limit"
  by (simp add: fallback_memory_search_def Let_def length_sql_limit split: option.splits)

lemma semantic_memory_fields:
  assumes "m \<in> set (semantic_memory emotion cutoff h)"
  shows "m_relevance_type m = Semantic \<and> (\<exists>v. m_similarity m = Some v \<and> 7 / 10 \<le> v)"
  using assms
  by (auto simp: semantic_memory_def Let_def split: prod.splits option.splits if_splits)

lemma find_similar_memories_fields:
  assumes "m \<in> set (find_similar_memories index dbf ago q emotion limit days_back)"
  shows "m_relevance_type m \<noteq> Emotional \<and> (\<exists>v. m_similarity m = Some v \<and> 0 \<le> v)"
proof -
  consider
    (fallback) "m \<in> set (fallback_memory_search dbf ago q emotion limit days_back)"
  | (semantic) query hits where "index = Some query" "query q (limit * 2) = Inr hits"
      "m \<in> set (py_take limit (sort_desc (get_similarity 0)
                   (concat (map (semantic_memory emotion (ago days_back)) hits))))"
    using assms
    by (auto simp: find_similar_memories_def split: option.splits sum.splits if_splits)
  then show ?thesis
  proof cases
    case fallback
    then show ?thesis using fallback_memory_search_fields by fastforce
  next
    case semantic
    then have "m \<in> set (concat (map (semantic_memory emotion (ago days_back)) hits))"
      using set_py_take by fastforce
    then obtain h where "m \<in> set (semantic_memory emotion (ago days_back) h)" by auto
    from semantic_memory_fields [OF this] show ?thesis by fastforce
  qed
qed

lemma length_find_similar_memories:
  "0 \<le> limit \<Longrightarrow>
     length (find_similar_memories index dbf ago q emotion limit days_back) \<le> nat limit"
  by (simp add: find_similar_memories_def length_fallback_memory_search length_py_take
      split: option.splits sum.splits)

lemma find_emotional_memories_fields:
  assumes "m \<in> set (find_emotional_memories dbf ago e limit days_back)"
  shows "m_relevance_type m = Emotional \<and> m_similarity m = None \<and>
         (\<exists>s. dbf = Some s \<and> m_text m \<in> set (map i_text (interactions s)))"
proof (cases dbf)
  case None
  then show ?thesis using assms by (simp add: find_emotional_memories_def)
next
  case (Some s)
  then obtain r where "r \<in> set (interactions s)" "m = emotional_memory r"
    using assms set_sql_limit by (fastforce simp: find_emotional_memories_def)
  then show ?thesis using Some by (auto simp: emotional_memory_def)
qed

text \<open>The emotional results as \<open>retrieve\<close> computes them.\<close>

lemma retrieve_keys:
  fixes index dbf ago current_text current_emotion max_memories
  defines "ts \<equiv> find_similar_memories index dbf ago current_text None max_memories 30"
    and "es \<equiv> (case current_emotion of None \<Rightarrow> []
               | Some e \<Rightarrow> if e \<noteq> [] then find_emotional_memories dbf ago e (max_memories div 2) 14
                           else [])"
  shows "(\<forall>m \<in> set ts. 0 \<le> get_similarity 0 m) \<and> (\<forall>m \<in> set es. get_similarity 0 m = 0)"
proof (intro conjI ballI)
  fix m assume "m \<in> set ts"
  then show "0 \<le> get_similarity 0 m"
    using find_similar_memories_fields [of m] by (fastforce simp: ts_def get_similarity_def)
next
  fix m assume "m \<in> set es"
  then have "m_similarity m = None"
    using find_emotional_memories_fields [of m]
    by (auto simp: es_def split: option.splits if_splits)
  then show "get_similarity 0 m = 0" by (simp add: get_similarity_def)
qed

text \<open>
  C1: let the result count be non-negative, and let the topical search and the emotional
  search both return a dictionary with the same text. Then the list that
  \<open>inject_context_memories\<close> stores under \<open>relevant_memories\<close> holds exactly one
  entry with that text, and it is the first topical entry with that text: one that
  carries a similarity and is not of the emotional kind. (The same holds for every text
  the topical search returns, whether or not the emotional search returns it too.)
\<close>
theorem merged_text_once:
  assumes "0 \<le> max_memories"
    and "current_emotion = Some e" and "e \<noteq> []"
    and "mt \<in> set (find_similar_memories index dbf ago current_text None max_memories 30)"
    and "me \<in> set (find_emotional_memories dbf ago e (max_memories div 2) 14)"
    and "m_text mt = m_text me"
  shows "\<exists>m. filter (\<lambda>x. m_text x = m_text me)
               (retrieve index dbf ago current_text current_emotion max_memories) = [m] \<and>
             find (\<lambda>x. m_text x = m_text me)
               (find_similar_memories index dbf ago current_text None max_memories 30) = Some m \<and>
             m_relevance_type m \<noteq> Emotional \<and> m_similarity m \<noteq> None"
proof -
  let ?ts = "find_similar_memories index dbf ago current_text None max_memories 30"
  let ?es = "case current_emotion of None \<Rightarrow> []
             | Some e \<Rightarrow> if e \<noteq> [] then find_emotional_memories dbf ago e (max_memories div 2) 14
                         else []"
  from find_text_exists [OF assms(4)] assms(6)
  obtain m where first: "find (\<lambda>x. m_text x = m_text me) ?ts = Some m" by auto
  then have "m \<in> set ?ts" using find_text_Some by blast
  from find_similar_memories_fields [OF this]
  have kind: "m_relevance_type m \<noteq> Emotional \<and> m_similarity m \<noteq> None"
    by auto
  have keys: "(\<forall>m \<in> set ?ts. 0 \<le> get_similarity 0 m) \<and> (\<forall>m \<in> set ?es. get_similarity 0 m = 0)"
    by (rule retrieve_keys)
  have len: "int (length ?ts) \<le> max_memories"
    using length_find_similar_memories [OF assms(1), of index dbf ago current_text None 30]
      assms(1) by linarith
  have "filter (\<lambda>x. m_text x = m_text me) (merge_memories max_memories ?ts ?es) = [m]"
    using keys assms(1) len first by (intro merge_memories_text) blast+
  then show ?thesis using first kind by (simp add: retrieve_def)
qed

lemma example_topical:
  "find_similar_memories (Some example_index) (Some example_db) example_ago ''debugging'' None 3 30 =
     [\<lparr>m_text = ''I love debugging at night'', m_emotion = Some ''calm'', m_mood = None,
       m_tags = Some ''coding'', m_timestamp = Some (2025, 7, 19, 10, 0, 0, 0),
       m_intensity = None, m_bit_worthy = None, m_similarity = Some (4 / 5),
       m_interaction_id = Some 1, m_relevance_type = Semantic\<rparr>]"
  by code_simp

lemma example_emotional:
  "find_emotional_memories (Some example_db) example_ago ''calm'' (3 div 2) 14 =
     [\<lparr>m_text = ''I love debugging at night'', m_emotion = Some ''calm'', m_mood = None,
       m_tags = Some ''coding'', m_timestamp = Some (2025, 7, 19, 10, 0, 0, 0),
       m_intensity = Some 5, m_bit_worthy = Some False, m_similarity = None,
       m_interaction_id = None, m_relevance_type = Emotional\<rparr>]"
  by code_simp

theorem merged_text_once_witness:
  "\<exists>m. filter (\<lambda>x. m_text x = ''I love debugging at night'')
          (retrieve (Some example_index) (Some example_db) example_ago ''debugging''
             (Some ''calm'') 3) = [m] \<and>
        find (\<lambda>x. m_text x = ''I love debugging at night'')
          (find_similar_memories (Some example_index) (Some example_db) example_ago
             ''debugging'' None 3 30) = Some m \<and>
        m_relevance_type m \<noteq> Emotional \<and> m_similarity m \<noteq> None"
proof -
  let ?mt = "\<lparr>m_text = ''I love debugging at night'', m_emotion = Some ''calm'', m_mood = None,
       m_tags = Some ''coding'', m_timestamp = Some (2025, 7, 19, 10, 0, 0, 0),
       m_intensity = None, m_bit_worthy = None, m_similarity = Some (4 / 5),
       m_interaction_id = Some 1, m_relevance_type = Semantic\<rparr>"
  let ?me = "\<lparr>m_text = ''I love debugging at night'', m_emotion = Some ''calm'', m_mood = None,
       m_tags = Some ''coding'', m_timestamp = Some (2025, 7, 19, 10, 0, 0, 0),
       m_intensity = Some 5, m_bit_worthy = Some False, m_similarity = None,
       m_interaction_id = None, m_relevance_type = Emotional\<rparr>"
  have a: "(0::int) \<le> 3" by simp
  have b: "Some ''calm'' = Some ''calm''" by simp
  have c: "''calm'' \<noteq> []" by simp
  have d: "?mt \<in> set (find_similar_memories (Some example_index) (Some example_db) example_ago
                         ''debugging'' None 3 30)"
    by (simp only: example_topical list.set insertI1)
  have e: "?me \<in> set (find_emotional_memories (Some example_db) example_ago ''calm'' (3 div 2) 14)"
    by (simp only: example_emotional list.set insertI1)
  have f: "m_text ?mt = m_text ?me" by simp
  from merged_text_once [OF a b c d e f] show ?thesis by simp
qed

text \<open>
  C2, as the code has it: the similarity is \<open>1 - distance\<close>, times 0.7 when an emotion
  is given and differs from the stored one, and nothing clamps it. It lies in the closed
  interval from 0 to 1 for every distance in that interval.
\<close>
theorem similarity_within_unit_interval:
  assumes "0 \<le> distance" and "distance \<le> 1"
  shows "0 \<le> semantic_similarity emotion metadata distance \<and>
         semantic_similarity emotion metadata distance \<le> 1"
  using assms by (simp add: semantic_similarity_def Let_def)

theorem similarity_within_unit_interval_witness:
  "(0::real) \<le> 1 / 4 \<and> (1::real) / 4 \<le> 1 \<and>
   0 \<le> semantic_similarity (Some ''calm'') example_meta (1 / 4) \<and>
   semantic_similarity (Some ''calm'') example_meta (1 / 4) \<le> 1"
proof -
  have a: "(0::real) \<le> 1 / 4" by simp
  have b: "(1::real) / 4 \<le> 1" by simp
  from similarity_within_unit_interval [OF a b, of "Some ''calm''" example_meta] a b
  show ?thesis by blast
qed

text \<open>The claim as written covers distances outside the interval. A distance of -0.5
  gives the similarity 1.5, which passes the threshold and is returned as it is; a
  distance of 2 under the emotion penalty gives -0.7.\<close>
theorem similarity_unclamped_counterexample:
  "semantic_similarity None example_meta (- 1 / 2) = 3 / 2 \<and>
   \<not> semantic_similarity None example_meta (- 1 / 2) \<le> 1 \<and>
   map m_similarity
     (find_similar_memories (Some (\<lambda>q n. Inr [(''doc'', example_meta, - 1 / 2)])) None
        example_ago ''q'' None 5 30) = [Some (3 / 2)] \<and>
   semantic_similarity (Some ''sad'') example_meta 2 = - 7 / 10"
proof (intro conjI)
  show "semantic_similarity None example_meta (- 1 / 2) = 3 / 2"
    by (simp add: semantic_similarity_def truthy_def)
  then show "\<not> semantic_similarity None example_meta (- 1 / 2) \<le> 1" by simp
  show "map m_similarity
     (find_similar_memories (Some (\<lambda>q n. Inr [(''doc'', example_meta, - 1 / 2)])) None
        example_ago ''q'' None 5 30) = [Some (3 / 2)]"
    by code_simp
  show "semantic_similarity (Some ''sad'') example_meta 2 = - 7 / 10"
    by (simp add: semantic_similarity_def truthy_def example_meta_def)
qed

text \<open>
  C3, as the code has it: the sort key of a record without similarity is 0, the default
  of \<open>x.get('similarity', 0)\<close>. Every scored record has a key of at least 0 and stands
  before the unscored ones in the merge order, so the returned list is the scored
  records followed by the records of the emotional path: these sort last and do not
  interleave.
\<close>
theorem unscored_records_rank_zero:
  "\<exists>scored unscored.
     retrieve index dbf ago current_text current_emotion max_memories = scored @ unscored \<and>
     list_all (\<lambda>m. m_relevance_type m \<noteq> Emotional \<and> m_similarity m \<noteq> None \<and>
                    0 \<le> get_similarity 0 m) scored \<and>
     list_all (\<lambda>m. m_relevance_type m = Emotional \<and> m_similarity m = None \<and>
                    get_similarity 0 m = 0) unscored"
proof -
  define ts where "ts = find_similar_memories index dbf ago current_text None max_memories 30"
  define es where "es = (case current_emotion of None \<Rightarrow> []
             | Some e \<Rightarrow> if e \<noteq> [] then find_emotional_memories dbf ago e (max_memories div 2) 14
                         else [])"
  define S where "S = sort_desc (get_similarity 0) (unique_memories {} ts)"
  define E where "E = unique_memories (m_text ` set ts) es"
  have top: "\<forall>m \<in> set ts. 0 \<le> get_similarity 0 m"
    unfolding ts_def by (rule conjunct1 [OF retrieve_keys])
  have emo: "\<forall>m \<in> set es. get_similarity 0 m = 0"
    unfolding es_def by (rule conjunct2 [OF retrieve_keys])
  have "retrieve index dbf ago current_text current_emotion max_memories =
          merge_memories max_memories ts es"
    by (simp only: retrieve_def ts_def es_def)
  also have "\<dots> = py_take max_memories (S @ E)"
    unfolding S_def E_def by (rule merge_memories_split [OF top emo])
  finally have r: "retrieve index dbf ago current_text current_emotion max_memories =
                     py_take max_memories (S @ E)" .
  from py_take_is_take [of max_memories "S @ E"]
  obtain k where "py_take max_memories (S @ E) = take k (S @ E)" ..
  with r have split: "retrieve index dbf ago current_text current_emotion max_memories =
                        take k S @ take (k - length S) E"
    by (simp only: take_append)
  have scored: "list_all (\<lambda>m. m_relevance_type m \<noteq> Emotional \<and> m_similarity m \<noteq> None \<and>
                    0 \<le> get_similarity 0 m) (take k S)"
    unfolding list_all_iff
  proof
    fix m assume "m \<in> set (take k S)"
    then have "m \<in> set S" by (rule in_set_takeD)
    then have "m \<in> set (unique_memories {} ts)" by (simp add: S_def)
    then have m: "m \<in> set ts" using set_unique_memories by blast
    then have "m \<in> set (find_similar_memories index dbf ago current_text None max_memories 30)"
      by (simp only: ts_def)
    from find_similar_memories_fields [OF this]
    have "m_relevance_type m \<noteq> Emotional" and "m_similarity m \<noteq> None" by auto
    moreover from top m have "0 \<le> get_similarity 0 m" by blast
    ultimately show "m_relevance_type m \<noteq> Emotional \<and> m_similarity m \<noteq> None \<and>
                     0 \<le> get_similarity 0 m" by simp
  qed
  have unscored: "list_all (\<lambda>m. m_relevance_type m = Emotional \<and> m_similarity m = None \<and>
                    get_similarity 0 m = 0) (take (k - length S) E)"
    unfolding list_all_iff
  proof
    fix m assume "m \<in> set (take (k - length S) E)"
    then have "m \<in> set E" by (rule in_set_takeD)
    then have m: "m \<in> set es" unfolding E_def using set_unique_memories by blast
    then obtain e where "m \<in> set (find_emotional_memories dbf ago e (max_memories div 2) 14)"
      unfolding es_def by (cases current_emotion) (auto split: if_splits)
    from find_emotional_memories_fields [OF this]
    have "m_relevance_type m = Emotional" and "m_similarity m = None" by simp_all
    moreover from emo m have "get_similarity 0 m = 0" by blast
    ultimately show "m_relevance_type m = Emotional \<and> m_similarity m = None \<and>
                     get_similarity 0 m = 0" by simp
  qed
  from split scored unscored show ?thesis by blast
qed

text \<open>The claim as written gives the emotional records the score 0.5. A keyword hit of
  relevance 1/3 is returned before the emotional record, whose key is 0; with 0.5 the
  order would be the other way round.\<close>
theorem synthetic_score_counterexample:
  "map m_text (retrieve None (Some example_db2) example_ago ''debugging deadline tonight''
                 (Some ''calm'') 2) =
     [''Debugging marathon, so tired'', ''Quiet evening walk''] \<and>
   map (get_similarity 0)
       (retrieve None (Some example_db2) example_ago ''debugging deadline tonight''
          (Some ''calm'') 2) = [1 / 3, 0] \<and>
   map m_text
       (merge_memories_spec 2
          (find_similar_memories None (Some example_db2) example_ago
             ''debugging deadline tonight'' None 2 30)
          (find_emotional_memories (Some example_db2) example_ago ''calm'' (2 div 2) 14)) =
     [''Quiet evening walk'', ''Debugging marathon, so tired'']"
proof (intro conjI)
  show "map m_text (retrieve None (Some example_db2) example_ago ''debugging deadline tonight''
                 (Some ''calm'') 2) =
     [''Debugging marathon, so tired'', ''Quiet evening walk'']"
    by code_simp
  show "map (get_similarity 0)
       (retrieve None (Some example_db2) example_ago ''debugging deadline tonight''
          (Some ''calm'') 2) = [1 / 3, 0]"
    by code_simp
  show "map m_text
       (merge_memories_spec 2
          (find_similar_memories None (Some example_db2) example_ago
             ''debugging deadline tonight'' None 2 30)
          (find_emotional_memories (Some example_db2) example_ago ''calm'' (2 div 2) 14)) =
     [''Quiet evening walk'', ''Debugging marathon, so tired'']"
    by code_simp
qed

text \<open>
  Without the index (model or collection not loaded) \<open>find_similar_memories\<close> is the
  keyword search over the Record Store, the list of lines 292 to 317 is the merge of that
  with the emotional search, and every record in it is of the keyword or the emotional
  kind and carries the text of a live row.
\<close>
lemma retrieve_without_index:
  "find_similar_memories None dbf ago query_text emotion limit days_back =
     fallback_memory_search dbf ago query_text emotion limit days_back \<and>
   retrieve None dbf ago current_text current_emotion max_memories =
     merge_memories max_memories
       (fallback_memory_search dbf ago current_text None max_memories 30)
       (case current_emotion of
          None \<Rightarrow> []
        | Some e \<Rightarrow>
            if e \<noteq> [] then find_emotional_memories dbf ago e (max_memories div 2) 14 else []) \<and>
   list_all (\<lambda>m. (m_relevance_type m = Keyword \<or> m_relevance_type m = Emotional) \<and>
                  (\<exists>s. dbf = Some s \<and> m_text m \<in> set (map i_text (interactions s))))
     (retrieve None dbf ago current_text current_emotion max_memories)"
proof -
  define ts where "ts = fallback_memory_search dbf ago current_text None max_memories 30"
  define es where "es = (case current_emotion of None \<Rightarrow> []
             | Some e \<Rightarrow> if e \<noteq> [] then find_emotional_memories dbf ago e (max_memories div 2) 14
                         else [])"
  have a: "find_similar_memories None dbf ago query_text emotion limit days_back =
             fallback_memory_search dbf ago query_text emotion limit days_back"
    by (simp add: find_similar_memories_def)
  have b: "retrieve None dbf ago current_text current_emotion max_memories =
             merge_memories max_memories ts es"
    by (simp add: retrieve_def find_similar_memories_def ts_def es_def)
  have c: "list_all (\<lambda>m. (m_relevance_type m = Keyword \<or> m_relevance_type m = Emotional) \<and>
                  (\<exists>s. dbf = Some s \<and> m_text m \<in> set (map i_text (interactions s))))
             (merge_memories max_memories ts es)"
    unfolding list_all_iff
  proof
    fix m assume "m \<in> set (merge_memories max_memories ts es)"
    then have "m \<in> set (py_take max_memories
                 (sort_desc (get_similarity 0) (unique_memories {} (ts @ es))))"
      by (simp add: merge_memories_def)
    then have "m \<in> set (sort_desc (get_similarity 0) (unique_memories {} (ts @ es)))"
      by (rule subsetD [OF set_py_take])
    then have "m \<in> set (unique_memories {} (ts @ es))" by (simp only: set_sort_desc)
    then have "m \<in> set (ts @ es)" by (rule subsetD [OF set_unique_memories])
    then consider (kw) "m \<in> set ts" | (emo) "m \<in> set es" by auto
    then show "(m_relevance_type m = Keyword \<or> m_relevance_type m = Emotional) \<and>
               (\<exists>s. dbf = Some s \<and> m_text m \<in> set (map i_text (interactions s)))"
    proof cases
      case kw
      then have "m \<in> set (fallback_memory_search dbf ago current_text None max_memories 30)"
        by (simp only: ts_def)
      from fallback_memory_search_fields [OF this] show ?thesis by blast
    next
      case emo
      then obtain e where
        "m \<in> set (find_emotional_memories dbf ago e (max_memories div 2) 14)"
        unfolding es_def by (cases current_emotion) (auto split: if_splits)
      from find_emotional_memories_fields [OF this] show ?thesis by blast
    qed
  qed
  from c have c': "list_all (\<lambda>m. (m_relevance_type m = Keyword \<or> m_relevance_type m = Emotional) \<and>
                  (\<exists>s. dbf = Some s \<and> m_text m \<in> set (map i_text (interactions s))))
             (retrieve None dbf ago current_text current_emotion max_memories)"
    by (simp only: b)
  from b have b': "retrieve None dbf ago current_text current_emotion max_memories =
     merge_memories max_memories
       (fallback_memory_search dbf ago current_text None max_memories 30)
       (case current_emotion of
          None \<Rightarrow> []
        | Some e \<Rightarrow>
            if e \<noteq> [] then find_emotional_memories dbf ago e (max_memories div 2) 14 else [])"
    by (simp only: ts_def es_def)
  show ?thesis by (rule conjI [OF a conjI [OF b' c']])
qed

text \<open>An index that is loaded but raises is answered in the same way.\<close>
lemma index_failure_falls_back:
  "query query_text (limit * 2) = Inl e \<Longrightarrow>
     find_similar_memories (Some query) dbf ago query_text emotion limit days_back =
       fallback_memory_search dbf ago query_text emotion limit days_back"
  by (simp add: find_similar_memories_def)

text \<open>
  The step after the retrieval, the summary, is not guarded: \<open>inject_context_memories\<close>
  either returns the retrieved list in its context, or raises TypeError, and that only
  when a retrieved record of the emotional path has no emotion (a row matched by its
  mood whose emotion is NULL). The index plays no part in it.
\<close>
lemma inject_context_memories_outcome:
  "(\<exists>ctx. inject_context_memories index dbf now ago current_text current_emotion max_memories =
            Inr ctx \<and>
          c_relevant_memories ctx =
            retrieve index dbf ago current_text current_emotion max_memories) \<or>
   (inject_context_memories index dbf now ago current_text current_emotion max_memories =
      Inl TypeError \<and>
    (\<exists>m \<in> set (retrieve index dbf ago current_text current_emotion max_memories).
       m_relevance_type m = Emotional \<and> m_emotion m = None))"
  by (auto simp: inject_context_memories_def generate_memory_summary_def Let_def)

text \<open>
  C4 asks that without the index the retrieval falls back to the keyword search and does
  not raise. The code at a concrete input: the store holds one row, added with a mood
  and without an emotion; the index is not loaded; \<open>inject_context_memories\<close> is
  called with a text that shares no word with the row and with the row's mood as current
  emotion, for three memories. The keyword search answers with the empty list, the
  emotional search returns the row, and the summary that follows joins its emotion,
  which is None: the method raises TypeError and returns no list.
\<close>
theorem inject_without_index_raises:
  "add_interaction (2025, 7, 18, 9, 0, 0, 0) (Some ''Long day'') (Some ''manual'') None None
     (Some ''happy'') (Some 1) False empty_db = Inr (1, example_db3) \<and>
   find_similar_memories None (Some example_db3) example_ago ''foo'' None 3 30 = [] \<and>
   retrieve None (Some example_db3) example_ago ''foo'' (Some ''happy'') 3 =
     [\<lparr>m_text = ''Long day'', m_emotion = None, m_mood = Some ''happy'', m_tags = None,
       m_timestamp = Some (2025, 7, 18, 9, 0, 0, 0), m_intensity = Some 1,
       m_bit_worthy = Some False, m_similarity = None, m_interaction_id = None,
       m_relevance_type = Emotional\<rparr>] \<and>
   inject_context_memories None (Some example_db3) example_now example_ago ''foo''
     (Some ''happy'') 3 = Inl TypeError"
proof (intro conjI)
  show "add_interaction (2025, 7, 18, 9, 0, 0, 0) (Some ''Long day'') (Some ''manual'') None None
     (Some ''happy'') (Some 1) False empty_db = Inr (1, example_db3)"
    by (simp add: add_interaction_def insert_row_def next_rowid_def empty_db_def example_db3_def)
  show "find_similar_memories None (Some example_db3) example_ago ''foo'' None 3 30 = []"
    by code_simp
  show "retrieve None (Some example_db3) example_ago ''foo'' (Some ''happy'') 3 =
     [\<lparr>m_text = ''Long day'', m_emotion = None, m_mood = Some ''happy'', m_tags = None,
       m_timestamp = Some (2025, 7, 18, 9, 0, 0, 0), m_intensity = Some 1,
       m_bit_worthy = Some False, m_similarity = None, m_interaction_id = None,
       m_relevance_type = Emotional\<rparr>]"
    by code_simp
  show "inject_context_memories None (Some example_db3) example_now example_ago ''foo''
     (Some ''happy'') 3 = Inl TypeError"
    by code_simp
qed

section \<open>The prompt and the sync: properties\<close>



text \<open>The length check of lines 306 to 308.\<close>
lemma length_limit_prompt_cut:
  "0 \<le> n \<Longrightarrow> n < int (length p) \<Longrightarrow> length (limit_prompt n p) = nat n + 3"
  by (simp add: limit_prompt_def py_take_def)






text \<open>
  C8 asks that storing a record in the index again overwrites its entry. The code at a
  concrete input: one row with id 1, the sync run twice, one second apart, on a
  collection that starts empty. The first run stores the row under an id made of the
  time of the run; the second run looks for the id made of the row's own timestamp,
  \<open>memory_2025-07-19T10:00:00_1\<close>, does not find it, and stores the row once more: the
  collection then holds two entries for interaction 1.
\<close>
theorem sync_twice_stores_two_vectors:
  "first_sync =
     (1, [\<lparr>v_id = ''memory_20250719_100001_1'', v_document = ''I love debugging at night'',
           v_metadata = \<lparr>vm_timestamp = Some (2025, 7, 19, 10, 0, 1, 0),
                          vm_emotion = Some ''calm'', vm_tags = Some ''coding'',
                          vm_interaction_id = Some 1, vm_text_length = Some 25\<rparr>\<rparr>]) \<and>
   second_sync =
     (1, [\<lparr>v_id = ''memory_20250719_100001_1'', v_document = ''I love debugging at night'',
           v_metadata = \<lparr>vm_timestamp = Some (2025, 7, 19, 10, 0, 1, 0),
                          vm_emotion = Some ''calm'', vm_tags = Some ''coding'',
                          vm_interaction_id = Some 1, vm_text_length = Some 25\<rparr>\<rparr>,
          \<lparr>v_id = ''memory_20250719_100002_1'', v_document = ''I love debugging at night'',
           v_metadata = \<lparr>vm_timestamp = Some (2025, 7, 19, 10, 0, 2, 0),
                          vm_emotion = Some ''calm'', vm_tags = Some ''coding'',
                          vm_interaction_id = Some 1, vm_text_length = Some 25\<rparr>\<rparr>]) \<and>
   ''memory_'' @ isoformat (i_timestamp example_row) @ ''_'' @ str_int (i_id example_row) =
     ''memory_2025-07-19T10:00:00_1''"
proof (intro conjI)
  show "first_sync =
     (1, [\<lparr>v_id = ''memory_20250719_100001_1'', v_document = ''I love debugging at night'',
           v_metadata = \<lparr>vm_timestamp = Some (2025, 7, 19, 10, 0, 1, 0),
                          vm_emotion = Some ''calm'', vm_tags = Some ''coding'',
                          vm_interaction_id = Some 1, vm_text_length = Some 25\<rparr>\<rparr>])"
    by code_simp
  show "second_sync =
     (1, [\<lparr>v_id = ''memory_20250719_100001_1'', v_document = ''I love debugging at night'',
           v_metadata = \<lparr>vm_timestamp = Some (2025, 7, 19, 10, 0, 1, 0),
                          vm_emotion = Some ''calm'', vm_tags = Some ''coding'',
                          vm_interaction_id = Some 1, vm_text_length = Some 25\<rparr>\<rparr>,
          \<lparr>v_id = ''memory_20250719_100002_1'', v_document = ''I love debugging at night'',
           v_metadata = \<lparr>vm_timestamp = Some (2025, 7, 19, 10, 0, 2, 0),
                          vm_emotion = Some ''calm'', vm_tags = Some ''coding'',
                          vm_interaction_id = Some 1, vm_text_length = Some 25\<rparr>\<rparr>])"
    by code_simp
  show "''memory_'' @ isoformat (i_timestamp example_row) @ ''_'' @ str_int (i_id example_row) =
          ''memory_2025-07-19T10:00:00_1''"
    by code_simp
qed

end
